theory Spec2Isabelle
  imports Complex_Main "HOL-Library.Word" "HOL-Library.AList"
begin

unbundle bit_operations_syntax

section \<open>Results of Go calls\<close>

text \<open>
  A Go function of this repository either returns a value, returns a non-nil \<open>error\<close>,
  or panics (an index or a slice bound out of range). The three outcomes are kept
  apart: a caller can wrap or drop an error, a panic unwinds through every caller.
\<close>

datatype panic = IndexOutOfRange | SliceBoundsOutOfRange | MakesliceLenOutOfRange

datatype ('e, 'a) result = Ok 'a | Err 'e | Panic panic

section \<open>The bencode decoder (internal/decoder/decoder.go)\<close>

subsection \<open>Library functions the decoder calls\<close>

text \<open>
  \<open>unicode.IsDigit(rune(b))\<close> for a byte \<open>b\<close>: the rune is a Latin-1 code point, for
  which the library tests \<open>'0' <= r <= '9'\<close>.
\<close>

definition IsDigit :: "char \<Rightarrow> bool" where
  "IsDigit c = (48 \<le> (of_char c :: nat) \<and> (of_char c :: nat) \<le> 57)"

text \<open>
  \<open>strconv.Atoi\<close>: an optional sign \<open>+\<close> or \<open>-\<close>, then one or more decimal digits and
  nothing else; the value must fit the 64-bit \<open>int\<close>. \<open>None\<close> is the library's
  \<open>*NumError\<close> (syntax or range).
\<close>

fun digits_value :: "string \<Rightarrow> nat \<Rightarrow> nat option" where
  "digits_value [] n = Some n"
| "digits_value (c # cs) n =
     (if IsDigit c then digits_value cs (n * 10 + (of_char c - 48)) else None)"

definition Atoi :: "string \<Rightarrow> int option" where
  "Atoi s =
     (case s of
        [] \<Rightarrow> None
      | c # cs \<Rightarrow>
          (let ds = (if c = CHR ''-'' \<or> c = CHR ''+'' then cs else s) in
           if ds = [] then None
           else (case digits_value ds 0 of
                   None \<Rightarrow> None
                 | Some n \<Rightarrow>
                     (let v = (if c = CHR ''-'' then - int n else int n) in
                      if - (2 ^ 63) \<le> v \<and> v < 2 ^ 63 then Some v else None))))"

text \<open>
  \<open>bufio.Reader\<close> over a \<open>bytes.Reader\<close>, as \<open>New\<close> builds it: \<open>buf\<close> holds the bytes
  that are buffered and not yet consumed (\<open>b.buf[b.r:b.w]\<close>), \<open>rd\<close> the bytes the
  underlying reader has not delivered yet, \<open>lastByte\<close> the byte \<open>UnreadByte\<close> would
  push back. The buffer has the default size of 4096 bytes. The reader's pending
  error \<open>b.err\<close> is nil between any two calls made here (each method that records
  the end of input returns and clears it), so it is not a field.
\<close>

record reader =
  buf :: string
  rd :: string
  lastByte :: "char option"

definition bufSize :: nat where
  "bufSize = 4096"

definition New :: "string \<Rightarrow> reader" where
  "New bencoded = \<lparr>buf = [], rd = bencoded, lastByte = None\<rparr>"

text \<open>\<open>fill\<close> moves the buffered bytes to the front and reads once into the free space.\<close>

definition fill :: "reader \<Rightarrow> reader" where
  "fill r = r\<lparr>buf := buf r @ take (bufSize - length (buf r)) (rd r),
              rd := drop (bufSize - length (buf r)) (rd r)\<rparr>"

text \<open>\<open>ReadByte\<close>: \<open>None\<close> is \<open>io.EOF\<close>.\<close>

definition ReadByte :: "reader \<Rightarrow> (char \<times> reader) option" where
  "ReadByte r =
     (let r' = (if buf r = [] then fill r else r) in
      case buf r' of
        [] \<Rightarrow> None
      | c # cs \<Rightarrow> Some (c, r'\<lparr>buf := cs, lastByte := Some c\<rparr>))"

text \<open>
  \<open>UnreadByte\<close>: \<open>None\<close> is \<open>ErrInvalidUnreadByte\<close>, returned when the last operation
  was not a read. (The library's second condition, \<open>b.r == 0 && b.w > 0\<close>, cannot
  hold after a read that consumed a byte.)
\<close>

definition UnreadByte :: "reader \<Rightarrow> reader option" where
  "UnreadByte r =
     (case lastByte r of
        None \<Rightarrow> None
      | Some c \<Rightarrow> Some (r\<lparr>buf := c # buf r, lastByte := None\<rparr>))"

text \<open>
  \<open>ReadBytes(delim)\<close>: searches the buffer; takes a full buffer without the
  delimiter as a fragment and goes on; otherwise fills. The result is the bytes up
  to and including the delimiter and \<open>True\<close>, or all remaining bytes and \<open>False\<close>
  (\<open>io.EOF\<close>).
\<close>

function ReadBytes_from :: "char \<Rightarrow> string \<Rightarrow> reader \<Rightarrow> string \<times> bool \<times> reader" where
  "ReadBytes_from delim frags r =
     (if delim \<in> set (buf r) then
        (let line = takeWhile (\<lambda>c. c \<noteq> delim) (buf r) @ [delim] in
         (frags @ line, True,
          r\<lparr>buf := drop (length line) (buf r), lastByte := Some delim\<rparr>))
      else if bufSize \<le> length (buf r) then
        ReadBytes_from delim (frags @ buf r) (r\<lparr>buf := [], lastByte := Some (last (buf r))\<rparr>)
      else if rd r = [] then
        (frags @ buf r, False,
         r\<lparr>buf := [], lastByte := (if buf r = [] then lastByte r else Some (last (buf r)))\<rparr>)
      else ReadBytes_from delim frags (fill r))"
  by pat_completeness auto
termination
proof (relation "measure (\<lambda>(delim, frags, r). 2 * length (rd r) + (if buf r = [] then 0 else 1))",
    goal_cases)
  case 1
  show ?case by simp
next
  case (2 delim frags r)
  then have "buf r \<noteq> []" by (auto simp: bufSize_def)
  then show ?case by simp
next
  case (3 delim frags r)
  then obtain x xs where "rd r = x # xs" and "length (buf r) < 4096"
    by (cases "rd r") (auto simp: bufSize_def)
  then show ?case by (auto simp: fill_def bufSize_def)
qed

declare ReadBytes_from.simps [simp del]

definition ReadBytes :: "char \<Rightarrow> reader \<Rightarrow> string \<times> bool \<times> reader" where
  "ReadBytes delim r = ReadBytes_from delim [] r"

text \<open>
  \<open>Read(p)\<close> with \<open>len(p) = n\<close>: at most one read of the underlying reader, and the
  bytes copied are at most the ones buffered, so fewer than \<open>n\<close> bytes can be
  returned with a nil error. \<open>None\<close> is \<open>io.EOF\<close>.
\<close>

definition Read :: "nat \<Rightarrow> reader \<Rightarrow> (string \<times> reader) option" where
  "Read n r =
     (if n = 0 then Some ([], r)
      else if buf r = [] then
        (if rd r = [] then None
         else if bufSize \<le> n then
           Some (take n (rd r), r\<lparr>rd := drop n (rd r), lastByte := Some (last (take n (rd r)))\<rparr>)
         else
           (let r' = fill r in
            Some (take n (buf r'),
                  r'\<lparr>buf := drop n (buf r'), lastByte := Some (last (take n (buf r')))\<rparr>)))
      else
        Some (take n (buf r),
              r\<lparr>buf := drop n (buf r), lastByte := Some (last (take n (buf r)))\<rparr>))"

subsection \<open>Values and errors\<close>

text \<open>
  What \<open>Decode\<close> returns as \<open>any\<close>: a \<open>string\<close>, an \<open>int\<close>, a \<open>[]any\<close> or a
  \<open>map[string]any\<close>; \<open>decodeString(true)\<close> returns a \<open>[]byte\<close>. The map is kept as
  an association list with unique keys, \<open>m[key] = v\<close> being \<open>AList.update\<close>.
\<close>

datatype bvalue =
    VString string
  | VBytes string
  | VInt int
  | VList "bvalue list"
  | VDict "(string \<times> bvalue) list"

text \<open>One constructor for each error the decoder builds; a wrapped error keeps its cause.\<close>

datatype derror =
    InvalidIntFormat
  | EOF
  | InvalidStringFormat
  | FailedToReadString
  | FailedToReadByte
  | FailedToUnreadByte
  | FailedToDecode derror
  | FailedToDecodeDictKey derror
  | DictKeyMustBeString
  | FailedToDecodeDictValue derror
  | UnknownFormat

definition End :: char where
  "End = CHR ''e''"

subsection \<open>decodeInt and decodeString\<close>

definition decodeInt :: "reader \<Rightarrow> (derror, int \<times> reader) result" where
  "decodeInt r =
     (case ReadBytes End r of
        (intBytes, found, r') \<Rightarrow>
          if \<not> found then Err InvalidIntFormat
          else
            (let numStr = butlast intBytes in
             if 1 < length numStr \<and> hd numStr = CHR ''0'' then Err InvalidIntFormat
             else (case Atoi numStr of
                     None \<Rightarrow> Err InvalidIntFormat
                   | Some n \<Rightarrow> Ok (n, r'))))"

text \<open>
  \<open>make([]byte, length)\<close> is zero-filled and \<open>Read\<close> overwrites its first bytes only:
  after a short read the tail of \<open>str\<close> stays zero. A negative length panics.
\<close>

definition decodeString :: "bool \<Rightarrow> reader \<Rightarrow> (derror, bvalue \<times> reader) result" where
  "decodeString asBytes r =
     (case ReadBytes (CHR '':'') r of
        (lenBytes, found, r') \<Rightarrow>
          if \<not> found then Err EOF
          else
            (case Atoi (butlast lenBytes) of
               None \<Rightarrow> Err InvalidStringFormat
             | Some len \<Rightarrow>
                 if len < 0 then Panic MakesliceLenOutOfRange
                 else
                   (case Read (nat len) r' of
                      None \<Rightarrow> Err FailedToReadString
                    | Some (got, r'') \<Rightarrow>
                        (let str = got @ replicate (nat len - length got) (CHR 0x00) in
                         Ok (if asBytes then VBytes str else VString str, r'')))))"

subsection \<open>Decode, decodeArray and decodeDict\<close>

text \<open>
  The three functions call each other; the loops of \<open>decodeArray\<close> and \<open>decodeDict\<close>
  are recursion on the reader left by the element just decoded. \<open>unread\<close> counts the
  bytes not yet consumed; it is the measure of the termination proof.
\<close>

definition unread :: "reader \<Rightarrow> nat" where
  "unread r = length (buf r) + length (rd r)"

function Decode :: "reader \<Rightarrow> (derror, bvalue \<times> reader) result"
  and decodeArray :: "reader \<Rightarrow> bvalue list \<Rightarrow> (derror, bvalue list \<times> reader) result"
  and decodeDict :: "reader \<Rightarrow> (string \<times> bvalue) list \<Rightarrow> (derror, (string \<times> bvalue) list \<times> reader) result"
where
  "Decode r =
     (case ReadByte r of
        None \<Rightarrow> Err FailedToReadByte
      | Some (b, r1) \<Rightarrow>
          if IsDigit b then
            (case UnreadByte r1 of
               None \<Rightarrow> Err FailedToUnreadByte
             | Some r2 \<Rightarrow> decodeString False r2)
          else if b = CHR ''i'' then
            (case decodeInt r1 of
               Ok (n, r2) \<Rightarrow> Ok (VInt n, r2)
             | Err e \<Rightarrow> Err e
             | Panic p \<Rightarrow> Panic p)
          else if b = CHR ''l'' then
            (case decodeArray r1 [] of
               Ok (list, r2) \<Rightarrow> Ok (VList list, r2)
             | Err e \<Rightarrow> Err e
             | Panic p \<Rightarrow> Panic p)
          else if b = CHR ''d'' then
            (case decodeDict r1 [] of
               Ok (m, r2) \<Rightarrow> Ok (VDict m, r2)
             | Err e \<Rightarrow> Err e
             | Panic p \<Rightarrow> Panic p)
          else Err UnknownFormat)"
| "decodeArray r list =
     (case ReadByte r of
        None \<Rightarrow> Err FailedToReadByte
      | Some (b, r1) \<Rightarrow>
          if b = End then Ok (list, r1)
          else
            (case UnreadByte r1 of
               None \<Rightarrow> Err FailedToUnreadByte
             | Some r2 \<Rightarrow>
                 (case Decode r2 of
                    Err e \<Rightarrow> Err (FailedToDecode e)
                  | Panic p \<Rightarrow> Panic p
                  | Ok (v, r3) \<Rightarrow> decodeArray r3 (list @ [v]))))"
| "decodeDict r m =
     (case ReadByte r of
        None \<Rightarrow> Err FailedToReadByte
      | Some (b, r1) \<Rightarrow>
          if b = End then Ok (m, r1)
          else
            (case UnreadByte r1 of
               None \<Rightarrow> Err FailedToUnreadByte
             | Some r2 \<Rightarrow>
                 (case Decode r2 of
                    Err e \<Rightarrow> Err (FailedToDecodeDictKey e)
                  | Panic p \<Rightarrow> Panic p
                  | Ok (k, r3) \<Rightarrow>
                      (case k of
                         VString key \<Rightarrow>
                           (case Decode r3 of
                              Err e \<Rightarrow> Err (FailedToDecodeDictValue e)
                            | Panic p \<Rightarrow> Panic p
                            | Ok (v, r4) \<Rightarrow> decodeDict r4 (AList.update key v m))
                       | _ \<Rightarrow> Err DictKeyMustBeString))))"
  by pat_completeness auto

lemma unread_fill: "unread (fill r) = unread r"
  unfolding unread_def fill_def by simp

lemma unread_ReadByte:
  "ReadByte r = Some (b, r1) \<Longrightarrow> unread r = Suc (unread r1) \<and> lastByte r1 = Some b"
proof -
  assume a: "ReadByte r = Some (b, r1)"
  define r0 where "r0 = (if buf r = [] then fill r else r)"
  have u: "unread r0 = unread r" by (simp add: r0_def unread_fill)
  from a obtain cs where "buf r0 = b # cs" "r1 = r0\<lparr>buf := cs, lastByte := Some b\<rparr>"
    by (auto simp: ReadByte_def r0_def Let_def split: list.splits)
  then show ?thesis using u by (simp add: unread_def)
qed

lemma unread_UnreadByte:
  "UnreadByte r1 = Some r2 \<Longrightarrow> unread r2 = Suc (unread r1)"
  by (auto simp: UnreadByte_def unread_def split: option.splits)

lemma unread_ReadBytes_from:
  "ReadBytes_from delim frags r = (bs, found, r') \<Longrightarrow>
     unread r' \<le> unread r \<and> (found \<longrightarrow> unread r' < unread r)"
proof (induction delim frags r rule: ReadBytes_from.induct)
  case (1 delim frags r)
  show ?case
  proof (cases "delim \<in> set (buf r)")
    case True
    then have "buf r \<noteq> []" by auto
    with True "1.prems" show ?thesis
      by (auto simp: unread_def Let_def ReadBytes_from.simps [of delim frags r])
  next
    case False
    note nd = this
    show ?thesis
    proof (cases "bufSize \<le> length (buf r)")
      case True
      with nd "1.prems" "1.IH"(1) show ?thesis
        by (auto simp: unread_def ReadBytes_from.simps [of delim frags r])
    next
      case False
      with nd "1.prems" "1.IH"(2) show ?thesis
        by (auto simp: unread_fill ReadBytes_from.simps [of delim frags r] split: if_splits)
           (simp_all add: unread_def)
    qed
  qed
qed

lemma unread_ReadBytes:
  "ReadBytes delim r = (bs, found, r') \<Longrightarrow>
     unread r' \<le> unread r \<and> (found \<longrightarrow> unread r' < unread r)"
  unfolding ReadBytes_def by (rule unread_ReadBytes_from)

lemma unread_Read: "Read n r = Some (got, r') \<Longrightarrow> unread r' \<le> unread r"
  by (auto simp: Read_def unread_def fill_def Let_def split: if_splits)

lemma unread_decodeInt: "decodeInt r = Ok (n, r') \<Longrightarrow> unread r' < unread r"
  by (auto simp: decodeInt_def Let_def split: prod.splits if_splits option.splits
      dest: unread_ReadBytes)

lemma unread_decodeString: "decodeString asBytes r = Ok (v, r') \<Longrightarrow> unread r' < unread r"
  by (auto simp: decodeString_def Let_def split: prod.splits if_splits option.splits
      dest!: unread_ReadBytes unread_Read)

lemma unread_Decode_partial:
  "Decode_decodeArray_decodeDict_dom (Inl r) \<Longrightarrow> Decode r = Ok (v, r') \<Longrightarrow> unread r' < unread r"
  "Decode_decodeArray_decodeDict_dom (Inr (Inl (ra, list))) \<Longrightarrow>
     decodeArray ra list = Ok (list', ra') \<Longrightarrow> unread ra' < unread ra"
  "Decode_decodeArray_decodeDict_dom (Inr (Inr (rb, m))) \<Longrightarrow>
     decodeDict rb m = Ok (m', rb') \<Longrightarrow> unread rb' < unread rb"
proof (induction r and ra list and rb m arbitrary: v r' and list' ra' and m' rb'
    rule: Decode_decodeArray_decodeDict.pinduct)
  case (1 r)
  from "1.prems" have eq: "Decode r = Ok (v, r')" by simp
  show ?case
  proof (cases "ReadByte r")
    case None
    with eq "1.hyps" show ?thesis by (simp add: Decode.psimps)
  next
    case (Some p)
    obtain b r1 where p: "p = (b, r1)" by (cases p)
    from Some p have rb: "ReadByte r = Some (b, r1)" by simp
    then have u1: "unread r = Suc (unread r1)" by (simp add: unread_ReadByte)
    consider (dig) "IsDigit b" | (int) "\<not> IsDigit b" "b = CHR ''i''"
      | (arr) "\<not> IsDigit b" "b \<noteq> CHR ''i''" "b = CHR ''l''"
      | (dict) "\<not> IsDigit b" "b \<noteq> CHR ''i''" "b \<noteq> CHR ''l''" "b = CHR ''d''"
      | (other) "\<not> IsDigit b" "b \<noteq> CHR ''i''" "b \<noteq> CHR ''l''" "b \<noteq> CHR ''d''"
      by blast
    then show ?thesis
    proof cases
      case dig
      with eq rb "1.hyps" obtain r2 where "UnreadByte r1 = Some r2" "decodeString False r2 = Ok (v, r')"
        by (auto simp: Decode.psimps split: option.splits)
      then show ?thesis using u1 by (auto dest!: unread_UnreadByte unread_decodeString)
    next
      case int
      with eq rb "1.hyps" obtain n where "decodeInt r1 = Ok (n, r')"
        by (auto simp: Decode.psimps split: result.splits)
      then show ?thesis using u1 by (auto dest!: unread_decodeInt)
    next
      case arr
      with eq rb "1.hyps" obtain l where "decodeArray r1 [] = Ok (l, r')"
        by (auto simp: Decode.psimps split: result.splits)
      with "1.IH"(1) [OF rb refl] arr have "unread r' < unread r1" by blast
      then show ?thesis using u1 by simp
    next
      case dict
      with eq rb "1.hyps" obtain l where "decodeDict r1 [] = Ok (l, r')"
        by (auto simp: Decode.psimps split: result.splits)
      with "1.IH"(2) [OF rb refl] dict have "unread r' < unread r1" by blast
      then show ?thesis using u1 by simp
    next
      case other
      with eq rb "1.hyps" show ?thesis by (simp add: Decode.psimps)
    qed
  qed
next
  case (2 r list)
  from "2.prems" have eq: "decodeArray r list = Ok (list', ra')" by simp
  show ?case
  proof (cases "ReadByte r")
    case None
    with eq "2.hyps" show ?thesis by (simp add: decodeArray.psimps)
  next
    case (Some p)
    obtain b r1 where p: "p = (b, r1)" by (cases p)
    from Some p have rb: "ReadByte r = Some (b, r1)" by simp
    then have u1: "unread r = Suc (unread r1)" by (simp add: unread_ReadByte)
    show ?thesis
    proof (cases "b = End")
      case True
      with eq rb "2.hyps" u1 show ?thesis by (simp add: decodeArray.psimps)
    next
      case False
      with eq rb "2.hyps" obtain r2 v r3 where
        ur: "UnreadByte r1 = Some r2" and d: "Decode r2 = Ok (v, r3)"
        and rest: "decodeArray r3 (list @ [v]) = Ok (list', ra')"
        by (auto simp: decodeArray.psimps split: option.splits result.splits)
      from "2.IH"(1) [OF rb refl False ur d] have "unread r3 < unread r2" .
      moreover from "2.IH"(2) [OF rb refl False ur d refl rest]
      have "unread ra' < unread r3" .
      moreover from ur have "unread r2 = Suc (unread r1)" by (rule unread_UnreadByte)
      ultimately show ?thesis using u1 by simp
    qed
  qed
next
  case (3 r m)
  from "3.prems" have eq: "decodeDict r m = Ok (m', rb')" by simp
  show ?case
  proof (cases "ReadByte r")
    case None
    with eq "3.hyps" show ?thesis by (simp add: decodeDict.psimps)
  next
    case (Some p)
    obtain b r1 where p: "p = (b, r1)" by (cases p)
    from Some p have rb: "ReadByte r = Some (b, r1)" by simp
    then have u1: "unread r = Suc (unread r1)" by (simp add: unread_ReadByte)
    show ?thesis
    proof (cases "b = End")
      case True
      with eq rb "3.hyps" u1 show ?thesis by (simp add: decodeDict.psimps)
    next
      case False
      with eq rb "3.hyps" obtain r2 key r3 v r4 where
        ur: "UnreadByte r1 = Some r2" and d: "Decode r2 = Ok (VString key, r3)"
        and d2: "Decode r3 = Ok (v, r4)"
        and rest: "decodeDict r4 (AList.update key v m) = Ok (m', rb')"
        by (auto simp: decodeDict.psimps split: option.splits result.splits bvalue.splits)
      from "3.IH"(1) [OF rb refl False ur d] have "unread r3 < unread r2" .
      moreover from "3.IH"(2) [OF rb refl False ur d refl refl d2]
      have "unread r4 < unread r3" .
      moreover from "3.IH"(3) [OF rb refl False ur d refl refl d2 refl rest]
      have "unread rb' < unread r4" .
      moreover from ur have "unread r2 = Suc (unread r1)" by (rule unread_UnreadByte)
      ultimately show ?thesis using u1 by simp
    qed
  qed
qed

termination Decode
proof (relation "measure (\<lambda>x. case x of Inl r \<Rightarrow> 2 * unread r
    | Inr (Inl (r, l)) \<Rightarrow> 2 * unread r + 1 | Inr (Inr (r, m)) \<Rightarrow> 2 * unread r + 1)", goal_cases)
  case 1
  show ?case by simp
next
  case (2 r x2 b r1)
  then show ?case by (auto dest!: unread_ReadByte)
next
  case (3 r x2 b r1)
  then show ?case by (auto dest!: unread_ReadByte)
next
  case (4 r list x2 b r1 r2)
  then show ?case by (auto dest!: unread_ReadByte unread_UnreadByte)
next
  case (5 r list x2 b r1 r2 x1 v r3)
  then have "unread r3 < unread r2" by (auto dest: unread_Decode_partial(1))
  with 5 show ?case by (auto dest!: unread_ReadByte unread_UnreadByte)
next
  case (6 r m x2 b r1 r2)
  then show ?case by (auto dest!: unread_ReadByte unread_UnreadByte)
next
  case (7 r m x2 b r1 r2 x1 k r3 key)
  then have "unread r3 < unread r2" by (auto dest: unread_Decode_partial(1))
  with 7 show ?case by (auto dest!: unread_ReadByte unread_UnreadByte)
next
  case (8 r m x2 b r1 r2 x1 k r3 key x1b v r4)
  then have "unread r3 < unread r2" "unread r4 < unread r3"
    by (auto dest: unread_Decode_partial(1))
  with 8 show ?case by (auto dest!: unread_ReadByte unread_UnreadByte)
qed

declare Decode.simps [simp del] decodeArray.simps [simp del] decodeDict.simps [simp del]

text \<open>What a caller of \<open>New(bencoded).Decode()\<close> gets: the value or the error.\<close>

definition Decode_bytes :: "string \<Rightarrow> (derror, bvalue) result" where
  "Decode_bytes bencoded = map_result id fst (Decode (New bencoded))"

text \<open>
  \<open>dictLoop r m ra ma\<close>: the loop of \<open>decodeDict\<close>, entered with reader \<open>r\<close> and map \<open>m\<close>,
  is at the head of an iteration with reader \<open>ra\<close> and map \<open>ma\<close>, every key and value
  so far having been decoded without error.
\<close>

inductive dictLoop :: "reader \<Rightarrow> (string \<times> bvalue) list \<Rightarrow> reader \<Rightarrow> (string \<times> bvalue) list \<Rightarrow> bool" where
  start: "dictLoop r m r m"
| pair: "dictLoop r m ra ma \<Longrightarrow> ReadByte ra = Some (b, r1) \<Longrightarrow> b \<noteq> End \<Longrightarrow>
     UnreadByte r1 = Some r2 \<Longrightarrow> Decode r2 = Ok (VString key, r3) \<Longrightarrow>
     Decode r3 = Ok (v, r4) \<Longrightarrow> dictLoop r m r4 (AList.update key v ma)"

section \<open>The torrent client (package torrent)\<close>

subsection \<open>Data\<close>

text \<open>
  Go's \<open>int\<close> and \<open>int64\<close> are \<open>int\<close> here: the lengths, counts and offsets computed
  below stay far inside 64 bits for any file length below \<open>2^63\<close>. The conversions to
  \<open>uint32\<close> and \<open>byte\<close> are \<open>word_of_int\<close>, which truncates as they do.
\<close>

type_synonym byte = "8 word"

record MetaInfo =
  Name :: string
  Pieces :: string
  Length :: int
  PieceLength :: int

record TorrentFile =
  Announce :: string
  Info :: MetaInfo

text \<open>
  A peer address is the text \<open>a.b.c.d:port\<close> in the source; here it is the four address
  bytes and the port that \<open>fmt.Sprintf\<close> renders.
\<close>

type_synonym peer = "byte \<times> byte \<times> byte \<times> byte \<times> 16 word"

record TorrentClient =
  File :: TorrentFile
  Peers :: "peer list"
  InfoHash :: "byte list"
  PeerID :: "byte list"

definition Bitfield :: int where "Bitfield = 5"
definition Interested :: int where "Interested = 2"
definition Unchoke :: int where "Unchoke = 1"
definition Request :: int where "Request = 6"

text \<open>One constructor for each error the client builds; a wrapped error keeps its cause.\<close>

datatype terror =
    FailedToGetPeersData
  | FailedToDecodeTrackerResponse
  | FailedToConnectToPeer
  | FailedToSendHandshake
  | FailedToReadHandshake
  | FailedToReadFromAPeer
  | WantedMessageButGot int byte
  | FailedToWriteToAPeer
  | FailedToSendPieceRequest
  | FailedToReadFromPeer
  | FailedToConnectToATracker terror
  | FailedToDoAHandshake terror
  | FailedToDownloadAPiece terror
  | FailedToWriteFile

subsection \<open>The world outside: tracker, peer connection, file system\<close>

text \<open>
  Everything the client reaches through the operating system is a field of \<open>world\<close>:
  \<^item> \<open>tracker\<close>: what \<open>http.Get\<close> and \<open>bencode.Unmarshal\<close> give for the announce request:
    a failure of either, or the \<open>peers\<close> string with the spare capacity of its byte slice;
  \<^item> \<open>dialOk\<close>: whether \<open>net.Dial\<close> succeeds;
  \<^item> \<open>incoming\<close>: the bytes the peer sends, in the chunks in which the transport
    delivers them; one \<open>conn.Read\<close> takes bytes from the first chunk only, and fails
    when no chunk is left (the peer has closed the connection);
  \<^item> \<open>sent\<close>: the byte strings written to the connection, oldest first;
  \<^item> \<open>writable\<close>: how many more \<open>conn.Write\<close> calls succeed (a failed one sends nothing);
  \<^item> \<open>fileWriteOk\<close>: whether \<open>os.WriteFile\<close> succeeds;
  \<^item> \<open>written\<close>: the \<open>os.WriteFile\<close> calls made, oldest first.
\<close>

datatype tracker_reply = GetFails | UnmarshalFails | PeersField "byte list" nat

record world =
  tracker :: tracker_reply
  dialOk :: bool
  incoming :: "byte list list"
  sent :: "byte list list"
  writable :: nat
  fileWriteOk :: bool
  written :: "(string \<times> byte list) list"

definition conn_Write :: "byte list \<Rightarrow> world \<Rightarrow> bool \<times> world" where
  "conn_Write msg w =
     (if writable w = 0 then (False, w)
      else (True, w\<lparr>sent := sent w @ [msg], writable := writable w - 1\<rparr>))"

text \<open>
  \<open>conn.Read(p)\<close> with \<open>len(p) = n\<close>: a read into an empty slice returns at once with
  no error; \<open>None\<close> is a read error.
\<close>

definition conn_Read :: "nat \<Rightarrow> world \<Rightarrow> (byte list \<times> world) option" where
  "conn_Read n w =
     (if n = 0 then Some ([], w)
      else (case incoming w of
              [] \<Rightarrow> None
            | c # cs \<Rightarrow>
                Some (take n c,
                      w\<lparr>incoming := (if drop n c = [] then cs else drop n c # cs)\<rparr>)))"

text \<open>\<open>io.ReadFull\<close> reads until the slice is full or a read fails.\<close>

function io_ReadFull :: "nat \<Rightarrow> world \<Rightarrow> byte list option \<times> world" where
  "io_ReadFull n w =
     (if n = 0 then (Some [], w)
      else (case conn_Read n w of
              None \<Rightarrow> (None, w)
            | Some (bs, w') \<Rightarrow>
                (case io_ReadFull (n - length bs) w' of
                   (None, w'') \<Rightarrow> (None, w'')
                 | (Some rest, w'') \<Rightarrow> (Some (bs @ rest), w''))))"
  by pat_completeness auto
termination
proof (relation "measure (\<lambda>(n, w). n + length (incoming w))", goal_cases)
  case 1
  show ?case by simp
next
  case (2 n w x2 bs w')
  then show ?case
    by (cases "incoming w") (auto simp: conn_Read_def split: if_splits)
qed

declare io_ReadFull.simps [simp del]

text \<open>A slice from \<open>make([]byte, n)\<close> after one read into it: the bytes read, then zeros.\<close>

definition filled :: "nat \<Rightarrow> byte list \<Rightarrow> byte list" where
  "filled n bs = bs @ replicate (n - length bs) 0"

definition os_WriteFile :: "string \<Rightarrow> byte list \<Rightarrow> world \<Rightarrow> bool \<times> world" where
  "os_WriteFile name data w = (fileWriteOk w, w\<lparr>written := written w @ [(name, data)]\<rparr>)"

text \<open>\<open>binary.BigEndian\<close>, on slices of at least four (two) bytes.\<close>

definition Uint32 :: "byte list \<Rightarrow> 32 word" where
  "Uint32 b = ucast (b ! 3) OR push_bit 8 (ucast (b ! 2)) OR push_bit 16 (ucast (b ! 1))
     OR push_bit 24 (ucast (b ! 0))"

definition Uint16 :: "byte list \<Rightarrow> 16 word" where
  "Uint16 b = ucast (b ! 1) OR push_bit 8 (ucast (b ! 0))"

definition PutUint32 :: "32 word \<Rightarrow> byte list" where
  "PutUint32 v = [ucast (drop_bit 24 v), ucast (drop_bit 16 v), ucast (drop_bit 8 v), ucast v]"

text \<open>
  \<open>int(math.Ceil(float64(a) / float64(b)))\<close>: the ceiling of the quotient. The
  floating-point computation gives this value for \<open>0 \<le> a < 2^53\<close> and \<open>0 < b\<close>; its
  rounding beyond that range, and the conversion of an infinite quotient for
  \<open>b = 0\<close>, are not modelled.
\<close>

definition ceil_div :: "int \<Rightarrow> int \<Rightarrow> int" where
  "ceil_div a b = - ((- a) div b)"

text \<open>Go's \<open>%\<close> truncates towards zero: the remainder has the sign of the dividend.\<close>

definition rem :: "int \<Rightarrow> int \<Rightarrow> int" where
  "rem a b = sgn a * (\<bar>a\<bar> mod \<bar>b\<bar>)"

subsection \<open>ConnectTracker and parsePeers\<close>

text \<open>
  \<open>parsePeers\<close> walks the compact peer list six bytes at a time. The slice
  expression \<open>peersBytes[i+4 : i+6]\<close> is checked against the capacity of the slice, the
  index expressions against its length: for a last entry of fewer than six bytes
  the first panics unless the spare capacity covers the missing bytes (which are
  zero), and an index panics when fewer than four bytes are there. \<open>spare\<close> is the
  capacity beyond the length that the conversion \<open>[]byte(trackerResponse.Peers)\<close>
  has given the slice.
\<close>

fun parsePeers_from :: "byte list \<Rightarrow> nat \<Rightarrow> peer list \<Rightarrow> (terror, peer list) result" where
  "parsePeers_from [] spare peers = Ok peers"
| "parsePeers_from (a # b # c # d # p1 # p2 # rest) spare peers =
     parsePeers_from rest spare (peers @ [(a, b, c, d, Uint16 [p1, p2])])"
| "parsePeers_from short spare peers =
     (if length short + spare < 6 then Panic SliceBoundsOutOfRange
      else (case short of
              [a, b, c, d] \<Rightarrow> Ok (peers @ [(a, b, c, d, Uint16 [0, 0])])
            | [a, b, c, d, p1] \<Rightarrow> Ok (peers @ [(a, b, c, d, Uint16 [p1, 0])])
            | _ \<Rightarrow> Panic IndexOutOfRange))"

definition parsePeers :: "byte list \<Rightarrow> nat \<Rightarrow> (terror, peer list) result" where
  "parsePeers peersBytes spare = parsePeers_from peersBytes spare []"

definition ConnectTracker :: "TorrentClient \<Rightarrow> world \<Rightarrow> (terror, TorrentClient) result \<times> world" where
  "ConnectTracker client w =
     (case tracker w of
        GetFails \<Rightarrow> (Err FailedToGetPeersData, w)
      | UnmarshalFails \<Rightarrow> (Err FailedToDecodeTrackerResponse, w)
      | PeersField peersBytes spare \<Rightarrow>
          (case parsePeers peersBytes spare of
             Ok peers \<Rightarrow> (Ok (client\<lparr>Peers := peers\<rparr>), w)
           | Err e \<Rightarrow> (Err e, w)
           | Panic p \<Rightarrow> (Panic p, w)))"

subsection \<open>Handshake, waitForMessage, interested\<close>

text \<open>
  \<open>Handshake\<close> returns the connection; the peer id it cuts out of the reply is only
  printed. The model returns that peer id, the connection being part of the world.
\<close>

definition Handshake :: "TorrentClient \<Rightarrow> world \<Rightarrow> (terror, byte list) result \<times> world" where
  "Handshake client w =
     (case Peers client of
        [] \<Rightarrow> (Panic IndexOutOfRange, w)
      | peerAddr # others \<Rightarrow>
          if \<not> dialOk w then (Err FailedToConnectToPeer, w)
          else
            (let msg = [19] @ map of_char ''BitTorrent protocol'' @ replicate 8 0
                   @ InfoHash client @ PeerID client in
             case conn_Write msg w of
               (False, w1) \<Rightarrow> (Err FailedToSendHandshake, w1)
             | (True, w1) \<Rightarrow>
                 (case conn_Read 68 w1 of
                    None \<Rightarrow> (Err FailedToReadHandshake, w1)
                  | Some (bs, w2) \<Rightarrow>
                      (let buf = filled 68 bs; peerID = drop 48 buf in
                       (Ok peerID, w2)))))"

text \<open>
  \<open>waitForMessage\<close>: \<open>message[0]\<close> panics when the length prefix is zero, the read
  into the empty slice having returned without error.
\<close>

definition waitForMessage :: "int \<Rightarrow> world \<Rightarrow> (terror, unit) result \<times> world" where
  "waitForMessage messageId w =
     (case conn_Read 4 w of
        None \<Rightarrow> (Err FailedToReadFromAPeer, w)
      | Some (bs, w1) \<Rightarrow>
          (let prefixLength = Uint32 (filled 4 bs) in
           case conn_Read (unat prefixLength) w1 of
             None \<Rightarrow> (Err FailedToReadFromAPeer, w1)
           | Some (bs', w2) \<Rightarrow>
               (let message = filled (unat prefixLength) bs' in
                if message = [] then (Panic IndexOutOfRange, w2)
                else if hd message \<noteq> word_of_int messageId
                  then (Err (WantedMessageButGot messageId (hd message)), w2)
                else (Ok (), w2))))"

definition interested :: "world \<Rightarrow> (terror, unit) result \<times> world" where
  "interested w =
     (case conn_Write [0, 0, 0, 1, word_of_int Interested] w of
        (False, w1) \<Rightarrow> (Err FailedToWriteToAPeer, w1)
      | (True, w1) \<Rightarrow> (Ok (), w1))"

subsection \<open>requestPiece\<close>

text \<open>
  The body of the loop of \<open>requestPiece\<close> for one block, from the request struct to
  \<open>result[9:]\<close>: \<open>index\<close>, \<open>begin\<close> and \<open>len\<close> are the \<open>int\<close> values converted to
  \<open>uint32\<close> for the fields \<open>Index\<close>, \<open>Begin\<close> and \<open>Length\<close>. \<open>Request_bytes\<close> is what
  \<open>binary.Write\<close> with \<open>binary.BigEndian\<close> makes of the struct, field after field;
  for a fixed-size struct it cannot fail. \<open>result[9:]\<close> panics when the frame has
  fewer than nine bytes.
\<close>

definition Request_bytes :: "int \<Rightarrow> int \<Rightarrow> int \<Rightarrow> byte list" where
  "Request_bytes index begin len =
     PutUint32 13 @ [word_of_int Request] @ PutUint32 (word_of_int index)
       @ PutUint32 (word_of_int begin) @ PutUint32 (word_of_int len)"

definition requestPiece_block :: "int \<Rightarrow> int \<Rightarrow> int \<Rightarrow> world \<Rightarrow> (terror, byte list) result \<times> world" where
  "requestPiece_block index begin len w =
     (case conn_Write (Request_bytes index begin len) w of
        (False, w1) \<Rightarrow> (Err FailedToSendPieceRequest, w1)
      | (True, w1) \<Rightarrow>
          (case conn_Read 4 w1 of
             None \<Rightarrow> (Err FailedToReadFromPeer, w1)
           | Some (bs, w2) \<Rightarrow>
               (let prefixLength = Uint32 (filled 4 bs) in
                case io_ReadFull (unat prefixLength) w2 of
                  (None, w3) \<Rightarrow> (Err FailedToReadFromPeer, w3)
                | (Some result, w3) \<Rightarrow>
                    if length result < 9 then (Panic SliceBoundsOutOfRange, w3)
                    else (Ok (drop 9 result), w3))))"

function requestPiece_from :: "int \<Rightarrow> int \<Rightarrow> int \<Rightarrow> int \<Rightarrow> int \<Rightarrow> byte list \<Rightarrow> world
    \<Rightarrow> (terror, byte list) result \<times> world" where
  "requestPiece_from pieceIndex pieceSize blockSize blockCount i data w =
     (if i < blockCount then
        (let blockLength =
               (if i = blockCount - 1 then pieceSize - (blockCount - 1) * blockSize
                else blockSize) in
         case requestPiece_block pieceIndex (i * blockSize) blockLength w of
           (Ok block, w') \<Rightarrow>
             requestPiece_from pieceIndex pieceSize blockSize blockCount (i + 1) (data @ block) w'
         | (Err e, w') \<Rightarrow> (Err e, w')
         | (Panic p, w') \<Rightarrow> (Panic p, w'))
      else (Ok data, w))"
  by pat_completeness auto
termination
  by (relation "measure (\<lambda>(pieceIndex, pieceSize, blockSize, blockCount, i, data, w).
        nat (blockCount - i))") auto

declare requestPiece_from.simps [simp del]

definition requestPiece :: "int \<Rightarrow> int \<Rightarrow> int \<Rightarrow> int \<Rightarrow> world \<Rightarrow> (terror, byte list) result \<times> world" where
  "requestPiece pieceIndex pieceSize blockSize blockCount w =
     requestPiece_from pieceIndex pieceSize blockSize blockCount 0 [] w"

subsection \<open>Download\<close>

definition blockSize :: int where
  "blockSize = 16 * 1024"

text \<open>
  The piece loop of \<open>Download\<close>, from loop counter \<open>i\<close> with the current values of the
  variables \<open>pieceSize\<close> and \<open>data\<close>.
\<close>

function Download_from :: "TorrentClient \<Rightarrow> int \<Rightarrow> int \<Rightarrow> int \<Rightarrow> byte list \<Rightarrow> world
    \<Rightarrow> (terror, byte list) result \<times> world" where
  "Download_from client pieceCount i pieceSize data w =
     (if i < pieceCount then
        (let pieceSize' =
               (if i = pieceCount - 1
                then rem (Length (Info (File client))) (PieceLength (Info (File client)))
                else pieceSize);
             blockCount = ceil_div pieceSize' blockSize in
         case requestPiece i pieceSize' blockSize blockCount w of
           (Ok piece, w') \<Rightarrow> Download_from client pieceCount (i + 1) pieceSize' (data @ piece) w'
         | (Err e, w') \<Rightarrow> (Err (FailedToDownloadAPiece e), w')
         | (Panic p, w') \<Rightarrow> (Panic p, w'))
      else (Ok data, w))"
  by pat_completeness auto
termination
  by (relation "measure (\<lambda>(client, pieceCount, i, pieceSize, data, w). nat (pieceCount - i))")
    auto

declare Download_from.simps [simp del]

text \<open>
  \<open>Download\<close> does not look at what \<open>waitForMessage\<close> and \<open>interested\<close> return; only a
  panic in them ends it.
\<close>

definition Download :: "TorrentClient \<Rightarrow> string \<Rightarrow> world \<Rightarrow> (terror, unit) result \<times> world" where
  "Download client outputFileName w =
     (case ConnectTracker client w of
        (Err e, w1) \<Rightarrow> (Err (FailedToConnectToATracker e), w1)
      | (Panic p, w1) \<Rightarrow> (Panic p, w1)
      | (Ok client1, w1) \<Rightarrow>
          (case Handshake client1 w1 of
             (Err e, w2) \<Rightarrow> (Err (FailedToDoAHandshake e), w2)
           | (Panic p, w2) \<Rightarrow> (Panic p, w2)
           | (Ok peerID, w2) \<Rightarrow>
               (case waitForMessage Bitfield w2 of
                  (Panic p, w3) \<Rightarrow> (Panic p, w3)
                | (bitfieldResult, w3) \<Rightarrow>
                    (case interested w3 of
                       (interestedResult, w4) \<Rightarrow>
                         (case waitForMessage Unchoke w4 of
                            (Panic p, w5) \<Rightarrow> (Panic p, w5)
                          | (unchokeResult, w5) \<Rightarrow>
                              (let pieceSize = PieceLength (Info (File client1));
                                   pieceCount = ceil_div (Length (Info (File client1))) pieceSize in
                               case Download_from client1 pieceCount 0 pieceSize [] w5 of
                                 (Err e, w6) \<Rightarrow> (Err e, w6)
                               | (Panic p, w6) \<Rightarrow> (Panic p, w6)
                               | (Ok data, w6) \<Rightarrow>
                                   (case os_WriteFile outputFileName data w6 of
                                      (False, w7) \<Rightarrow> (Err FailedToWriteFile, w7)
                                    | (True, w7) \<Rightarrow> (Ok (), w7))))))))"

subsection \<open>The block length of an iteration\<close>


section \<open>Sample clients and peers\<close>

text \<open>
  Concrete inputs at which the definitions are evaluated below. \<open>small_client\<close> is a
  client for a file of five bytes in one piece; \<open>divisible_client\<close> one for a file of
  1048576 bytes in pieces of 262144; \<open>even_client\<close> one for a file of eight bytes in
  pieces of four. \<open>handshake_reply\<close> is a peer's handshake.
\<close>

definition small_client :: TorrentClient where
  "small_client =
     \<lparr>File = \<lparr>Announce = ''http://tracker/announce'',
              Info = \<lparr>Name = ''f'', Pieces = [], Length = 5, PieceLength = 16\<rparr>\<rparr>,
      Peers = [],
      InfoHash = replicate 20 170,
      PeerID = map of_char ''00112233445566778899''\<rparr>"

definition divisible_client :: TorrentClient where
  "divisible_client =
     small_client\<lparr>File := \<lparr>Announce = ''http://tracker/announce'',
       Info = \<lparr>Name = ''f'', Pieces = [], Length = 1048576, PieceLength = 262144\<rparr>\<rparr>\<rparr>"

definition even_client :: TorrentClient where
  "even_client =
     small_client\<lparr>File := \<lparr>Announce = ''http://tracker/announce'',
       Info = \<lparr>Name = ''f'', Pieces = [], Length = 8, PieceLength = 4\<rparr>\<rparr>\<rparr>"


definition handshake_reply :: "byte list" where
  "handshake_reply = [19] @ map of_char ''BitTorrent protocol'' @ replicate 8 0
     @ replicate 20 170 @ map of_char ''-XX0001-abcdefghijkl''"


text \<open>
  A peer that answers the handshake, then sends a choke message (id 0) where the
  bitfield is awaited and another where the unchoke is awaited, and then answers
  the request with a piece message carrying five bytes.
\<close>

definition choking_peer :: world where
  "choking_peer =
     \<lparr>tracker = PeersField [127, 0, 0, 1, 26, 225] 2, dialOk = True,
      incoming = [handshake_reply, [0, 0, 0, 1, 0], [0, 0, 0, 1, 0],
                  [0, 0, 0, 14], [7, 0, 0, 0, 0, 0, 0, 0, 0] @ map of_char ''hello''],
      sent = [], writable = 3, fileWriteOk = True, written = []\<rparr>"


text \<open>
  A peer that answers the handshake, sends a bitfield and an unchoke, and answers
  one request with a piece message carrying four bytes.
\<close>

definition serving_peer :: world where
  "serving_peer =
     \<lparr>tracker = PeersField [127, 0, 0, 1, 26, 225] 2, dialOk = True,
      incoming = [handshake_reply, [0, 0, 0, 2, 5, 192], [0, 0, 0, 1, 1],
                  [0, 0, 0, 13], [7, 0, 0, 0, 0, 0, 0, 0, 0, 1, 2, 3, 4]],
      sent = [], writable = 3, fileWriteOk = True, written = []\<rparr>"



section \<open>Properties of the decoder\<close>

subsection \<open>Integers\<close>

lemma decodeInt_examples:
  "Decode_bytes ''i03e'' = Err InvalidIntFormat \<and> Decode_bytes ''iXe'' = Err InvalidIntFormat
   \<and> Decode_bytes ''i0e'' = Ok (VInt 0) \<and> Decode_bytes ''i-5e'' = Ok (VInt (- 5))
   \<and> Decode_bytes ''i42e'' = Ok (VInt 42)"
  unfolding Decode_bytes_def by code_simp

text \<open>
  C3. Integer decoding is to reject \<open>i03e\<close>, \<open>i-0e\<close> and \<open>iXe\<close> and to accept \<open>i0e\<close>,
  \<open>i-5e\<close> and \<open>i42e\<close>. Five of the six inputs behave so (\<open>decodeInt_examples\<close>). The
  sixth does not: \<open>decodeInt\<close> tests for a leading \<open>0\<close> only at the first byte, and
  \<open>strconv.Atoi\<close> reads \<open>-0\<close> as zero, so \<open>i-0e\<close> is decoded to the integer 0.
\<close>

theorem decodeInt_accepts_negative_zero:
  "Decode_bytes ''i-0e'' = Ok (VInt 0)"
  unfolding Decode_bytes_def by code_simp

subsection \<open>Byte strings\<close>

lemma decodeString_non_numeric_length:
  "ReadBytes (CHR '':'') r = (lenBytes, True, r') \<Longrightarrow> Atoi (butlast lenBytes) = None \<Longrightarrow>
     decodeString asBytes r = Err InvalidStringFormat"
  by (simp add: decodeString_def)

lemma decodeString_no_colon:
  "ReadBytes (CHR '':'') r = (lenBytes, False, r') \<Longrightarrow> decodeString asBytes r = Err EOF"
  by (simp add: decodeString_def)

lemma decodeString_examples:
  "Decode_bytes ''4:spam'' = Ok (VString ''spam'') \<and> Decode_bytes ''0:'' = Ok (VString [])
   \<and> Decode_bytes ''5:'' = Err FailedToReadString
   \<and> Decode_bytes ''5x:abcde'' = Err InvalidStringFormat"
  unfolding Decode_bytes_def by code_simp

text \<open>
  C4. A byte string whose declared length exceeds the bytes that remain is to be
  a decode error. \<open>decodeString\<close> makes one \<open>Read\<close> into the slice of the declared
  length and checks only that \<open>Read\<close> returned no error; \<open>Read\<close> returns the bytes it
  has, without error, whenever at least one is left. For the input \<open>5:ab\<close> the
  result is the five-byte string \<open>ab\<close> followed by three zero bytes, not an error.
  (A non-numeric length is rejected: \<open>decodeString_non_numeric_length\<close>.)
\<close>

theorem decodeString_short_input_accepted:
  "Decode_bytes ''5:ab'' = Ok (VString [CHR ''a'', CHR ''b'', CHR 0x00, CHR 0x00, CHR 0x00])"
  unfolding Decode_bytes_def by code_simp

subsection \<open>Dictionary keys\<close>

lemma dictLoop_decodeDict: "dictLoop r m ra ma \<Longrightarrow> decodeDict r m = decodeDict ra ma"
proof (induction rule: dictLoop.induct)
  case (start r m)
  show ?case by simp
next
  case (pair r m ra ma b r1 r2 key r3 v r4)
  then show ?case by (simp add: decodeDict.simps [of ra ma])
qed

lemma decodeDict_bad_key:
  assumes "ReadByte r = Some (b, r1)" "b \<noteq> End" "UnreadByte r1 = Some r2"
    "Decode r2 = Ok (k, r3)" "\<forall>s. k \<noteq> VString s"
  shows "decodeDict r m = Err DictKeyMustBeString"
  using assms by (cases k) (simp_all add: decodeDict.simps [of r m])

lemma Decode_dict: "ReadByte r0 = Some (CHR ''d'', r) \<Longrightarrow> decodeDict r [] = Err e \<Longrightarrow> Decode r0 = Err e"
  by (simp add: Decode.simps [of r0] IsDigit_def)

text \<open>
  C5. In every dictionary decode, a key that decodes to anything but a string is a
  decode error. Let \<open>Decode\<close> read a \<open>d\<close> and let the loop of \<open>decodeDict\<close> have come,
  after any number of pairs, to a position that is not the terminator \<open>e\<close> and at
  which \<open>Decode\<close> gives a value \<open>k\<close> that is not a string (an integer, a list or a
  dictionary; a byte slice is never returned by \<open>Decode\<close>). Then the whole \<open>Decode\<close>
  fails with the error "dict key must be a string"; no map is returned.
\<close>

theorem dict_key_not_string:
  assumes "ReadByte r0 = Some (CHR ''d'', r)" "dictLoop r [] ra ma"
    "ReadByte ra = Some (b, r1)" "b \<noteq> End" "UnreadByte r1 = Some r2"
    "Decode r2 = Ok (k, r3)" "\<forall>s. k \<noteq> VString s"
  shows "Decode r0 = Err DictKeyMustBeString"
proof -
  have "decodeDict ra ma = Err DictKeyMustBeString"
    using assms(3-7) by (rule decodeDict_bad_key)
  with assms(2) have "decodeDict r [] = Err DictKeyMustBeString"
    by (simp add: dictLoop_decodeDict)
  with assms(1) show ?thesis by (rule Decode_dict)
qed

theorem dict_key_not_string_witness:
  "ReadByte (New ''d3:cow3:mooi1e3:mooe'')
     = Some (CHR ''d'', \<lparr>buf = ''3:cow3:mooi1e3:mooe'', rd = [], lastByte = Some (CHR ''d'')\<rparr>)
   \<and> dictLoop \<lparr>buf = ''3:cow3:mooi1e3:mooe'', rd = [], lastByte = Some (CHR ''d'')\<rparr> []
        \<lparr>buf = ''i1e3:mooe'', rd = [], lastByte = Some (CHR ''o'')\<rparr> [(''cow'', VString ''moo'')]
   \<and> Decode \<lparr>buf = ''i1e3:mooe'', rd = [], lastByte = None\<rparr>
       = Ok (VInt 1, \<lparr>buf = ''3:mooe'', rd = [], lastByte = Some (CHR ''e'')\<rparr>)
   \<and> Decode (New ''d3:cow3:mooi1e3:mooe'') = Err DictKeyMustBeString"
proof -
  let ?r = "\<lparr>buf = ''3:cow3:mooi1e3:mooe'', rd = [], lastByte = Some (CHR ''d'')\<rparr>"
  let ?ra = "\<lparr>buf = ''i1e3:mooe'', rd = [], lastByte = Some (CHR ''o'')\<rparr>"
  let ?r2 = "\<lparr>buf = ''i1e3:mooe'', rd = [], lastByte = None\<rparr>"
  have h1: "ReadByte (New ''d3:cow3:mooi1e3:mooe'') = Some (CHR ''d'', ?r)"
    by code_simp
  have p1: "ReadByte ?r = Some (CHR ''3'', \<lparr>buf = '':cow3:mooi1e3:mooe'', rd = [], lastByte = Some (CHR ''3'')\<rparr>)"
    by code_simp
  have p2: "CHR ''3'' \<noteq> End" by (simp add: End_def)
  have p3: "UnreadByte \<lparr>buf = '':cow3:mooi1e3:mooe'', rd = [], lastByte = Some (CHR ''3'')\<rparr>
      = Some \<lparr>buf = ''3:cow3:mooi1e3:mooe'', rd = [], lastByte = None\<rparr>"
    by code_simp
  have p4: "Decode \<lparr>buf = ''3:cow3:mooi1e3:mooe'', rd = [], lastByte = None\<rparr>
      = Ok (VString ''cow'', \<lparr>buf = ''3:mooi1e3:mooe'', rd = [], lastByte = Some (CHR ''w'')\<rparr>)"
    by code_simp
  have p5: "Decode \<lparr>buf = ''3:mooi1e3:mooe'', rd = [], lastByte = Some (CHR ''w'')\<rparr>
      = Ok (VString ''moo'', ?ra)"
    by code_simp
  have h2: "dictLoop ?r [] ?ra [(''cow'', VString ''moo'')]"
    using dictLoop.pair [OF dictLoop.start p1 p2 p3 p4 p5, of "[]"] by simp
  have h3: "ReadByte ?ra = Some (CHR ''i'', \<lparr>buf = ''1e3:mooe'', rd = [], lastByte = Some (CHR ''i'')\<rparr>)"
    by code_simp
  have h4: "CHR ''i'' \<noteq> End" by (simp add: End_def)
  have h5: "UnreadByte \<lparr>buf = ''1e3:mooe'', rd = [], lastByte = Some (CHR ''i'')\<rparr> = Some ?r2"
    by code_simp
  have h6: "Decode ?r2 = Ok (VInt 1, \<lparr>buf = ''3:mooe'', rd = [], lastByte = Some (CHR ''e'')\<rparr>)"
    by code_simp
  have h7: "\<forall>s. VInt 1 \<noteq> VString s" by simp
  from dict_key_not_string [OF h1 h2 h3 h4 h5 h6 h7] h1 h2 h6 show ?thesis by blast
qed

section \<open>Properties of the client\<close>

subsection \<open>Byte order\<close>


lemma PutUint32_bytes:
  "PutUint32 (word_of_int k) =
     map word_of_int [k div 2 ^ 24 mod 2 ^ 8, k div 2 ^ 16 mod 2 ^ 8, k div 2 ^ 8 mod 2 ^ 8, k mod 2 ^ 8]"
proof -
  have "ucast (drop_bit m (word_of_int k :: 32 word)) = (word_of_int (take_bit 8 (drop_bit m k)) :: 8 word)"
    if "m \<le> 24" for m
    using that by (intro bit_word_eqI) (auto simp: bit_simps)
  from this [of 24] this [of 16] this [of 8] this [of 0] show ?thesis
    unfolding PutUint32_def drop_bit_eq_div take_bit_eq_mod by simp
qed


subsection \<open>What the operations leave unchanged\<close>

lemma filled_Nil_iff: "filled n bs = [] \<longleftrightarrow> n = 0 \<and> bs = []"
  by (auto simp: filled_def)

lemma conn_Read_zero: "conn_Read 0 w = Some ([], w)"
  by (simp add: conn_Read_def)

lemma conn_Read_length: "conn_Read n w = Some (bs, w') \<Longrightarrow> length bs \<le> n"
  by (auto simp: conn_Read_def split: if_splits list.splits)














subsection \<open>The handshake\<close>




subsection \<open>Waiting for a message\<close>

text \<open>
  C10. \<open>waitForMessage\<close> panics, at the index \<open>message[0]\<close>, exactly when the four
  bytes of the length prefix were read and are zero (a keep-alive frame); it
  returns no error for such a frame. For every frame with a length prefix of at
  least one it returns, with \<open>nil\<close> or with an error.
\<close>

theorem waitForMessage_panics_iff:
  "(\<exists>p w'. waitForMessage messageId w = (Panic p, w'))
     \<longleftrightarrow> (\<exists>bs w1. conn_Read 4 w = Some (bs, w1) \<and> Uint32 (filled 4 bs) = 0)"
proof
  assume "\<exists>p w'. waitForMessage messageId w = (Panic p, w')"
  then obtain p w' where pw: "waitForMessage messageId w = (Panic p, w')" by blast
  then obtain bs w1 where r1: "conn_Read 4 w = Some (bs, w1)"
    by (auto simp: waitForMessage_def split: option.splits)
  with pw obtain bs' w2 where r2: "conn_Read (unat (Uint32 (filled 4 bs))) w1 = Some (bs', w2)"
    by (auto simp: waitForMessage_def Let_def split: option.splits)
  with pw r1 have "filled (unat (Uint32 (filled 4 bs))) bs' = []"
    by (auto simp: waitForMessage_def Let_def split: if_splits)
  then have "unat (Uint32 (filled 4 bs)) = 0" by (simp add: filled_Nil_iff)
  then have "Uint32 (filled 4 bs) = 0" by (simp add: unat_eq_0)
  with r1 show "\<exists>bs w1. conn_Read 4 w = Some (bs, w1) \<and> Uint32 (filled 4 bs) = 0" by blast
next
  assume "\<exists>bs w1. conn_Read 4 w = Some (bs, w1) \<and> Uint32 (filled 4 bs) = 0"
  then obtain bs w1 where "conn_Read 4 w = Some (bs, w1)" "Uint32 (filled 4 bs) = 0" by blast
  then have "waitForMessage messageId w = (Panic IndexOutOfRange, w1)"
    by (simp add: waitForMessage_def conn_Read_zero filled_def)
  then show "\<exists>p w'. waitForMessage messageId w = (Panic p, w')" by blast
qed

lemma waitForMessage_keep_alive:
  "waitForMessage messageId (w\<lparr>incoming := [0, 0, 0, 0] # cs\<rparr>)
     = (Panic IndexOutOfRange, w\<lparr>incoming := cs\<rparr>)"
  by (simp add: waitForMessage_def conn_Read_def filled_def Uint32_def)

subsection \<open>One block request\<close>



subsection \<open>The block loop\<close>




lemma block_sizing_20000:
  "ceil_div 20000 blockSize = 2 \<and> 20000 - (ceil_div 20000 blockSize - 1) * 16384 = 3616"
  by (simp add: ceil_div_def blockSize_def)



subsection \<open>The piece loop\<close>

lemma requestPiece_no_blocks: "requestPiece i pieceSize bs 0 w = (Ok [], w)"
  by (simp add: requestPiece_def requestPiece_from.simps [of i pieceSize bs 0 0 "[]" w])

lemma Download_from_done: "Download_from client pieceCount pieceCount pieceSize data w = (Ok data, w)"
  by (simp add: Download_from.simps [of client pieceCount pieceCount pieceSize data w])

lemma piece_sizing_1000000:
  "ceil_div 1000000 262144 = 4 \<and> rem 1000000 262144 = 213568"
  by (simp add: ceil_div_def rem_def)

lemma Download_last_piece_divisible:
  assumes "0 < PieceLength (Info (File client))"
    and "0 < Length (Info (File client))"
    and "Length (Info (File client)) mod PieceLength (Info (File client)) = 0"
  shows "Download_from client
           (ceil_div (Length (Info (File client))) (PieceLength (Info (File client))))
           (ceil_div (Length (Info (File client))) (PieceLength (Info (File client))) - 1)
           pieceSize data w = (Ok data, w)"
proof -
  let ?n = "ceil_div (Length (Info (File client))) (PieceLength (Info (File client)))"
  from assms have r: "rem (Length (Info (File client))) (PieceLength (Info (File client))) = 0"
    by (simp add: rem_def)
  have b: "ceil_div 0 blockSize = 0" by (simp add: ceil_div_def)
  show ?thesis
    by (simp add: Download_from.simps [of client ?n "?n - 1" pieceSize data w] r b
        requestPiece_no_blocks Download_from_done)
qed

lemma Download_divisible_run:
  "fst (Download even_client ''out.bin'' serving_peer) = Ok ()
   \<and> written (snd (Download even_client ''out.bin'' serving_peer)) = [(''out.bin'', [1, 2, 3, 4])]
   \<and> drop 2 (sent (snd (Download even_client ''out.bin'' serving_peer))) = [Request_bytes 0 0 4]"
  unfolding even_client_def small_client_def serving_peer_def handshake_reply_def by code_simp

text \<open>
  C1. The last piece is to have the length \<open>fileLength mod pieceLength\<close>, or
  \<open>pieceLength\<close> when that remainder is zero. \<open>Download\<close> has no case for the zero
  remainder: for a file of 1048576 bytes in pieces of 262144 the piece count is 4,
  and the iteration for the last piece, \<open>i = 3\<close>, computes the piece size 0 and the
  block count 0, sends no request and adds no byte, whatever the connection. (For
  a length that is no multiple of the piece length the last piece is the
  remainder: \<open>piece_sizing_1000000\<close>.)
\<close>

theorem Download_last_piece_empty:
  "ceil_div (Length (Info (File divisible_client))) (PieceLength (Info (File divisible_client))) = 4
   \<and> rem (Length (Info (File divisible_client))) (PieceLength (Info (File divisible_client))) = 0
   \<and> ceil_div 0 blockSize = 0
   \<and> Download_from divisible_client 4 3 262144 data w = (Ok data, w)"
proof -
  have c: "ceil_div (Length (Info (File divisible_client))) (PieceLength (Info (File divisible_client))) = 4"
    by (simp add: divisible_client_def small_client_def ceil_div_def)
  have r: "rem (Length (Info (File divisible_client))) (PieceLength (Info (File divisible_client))) = 0"
    by (simp add: divisible_client_def small_client_def rem_def)
  have b: "ceil_div 0 blockSize = 0" by (simp add: ceil_div_def)
  have "Download_from divisible_client 4 3 262144 data w = (Ok data, w)"
    by (simp add: Download_from.simps [of divisible_client 4 3 262144 data w] r b
        requestPiece_no_blocks Download_from_done)
  with c r b show ?thesis by simp
qed

subsection \<open>Errors in Download\<close>

text \<open>
  C2. Any failure is to abort \<open>Download\<close>; in particular a failed wait for the
  bitfield, a failed \<open>interested\<close> and a failed wait for the unchoke. \<open>Download\<close> drops
  what these three calls return. With \<open>choking_peer\<close> both waits fail (a message
  with id 0 arrives instead), and \<open>Download\<close> goes on to the request, writes the file
  and returns \<open>nil\<close>.
\<close>

theorem Download_ignores_failed_waits:
  "fst (Download small_client ''out.bin'' choking_peer) = Ok ()
   \<and> written (snd (Download small_client ''out.bin'' choking_peer))
       = [(''out.bin'', map of_char ''hello'')]
   \<and> sent (snd (Download small_client ''out.bin'' choking_peer))
       = [[19] @ map of_char ''BitTorrent protocol'' @ replicate 8 0 @ replicate 20 170
            @ map of_char ''00112233445566778899'',
          [0, 0, 0, 1, 2],
          Request_bytes 0 0 5]
   \<and> fst (waitForMessage Bitfield
         (choking_peer\<lparr>incoming := tl (incoming choking_peer)\<rparr>))
       = Err (WantedMessageButGot Bitfield 0)
   \<and> fst (waitForMessage Unchoke
         (choking_peer\<lparr>incoming := tl (tl (incoming choking_peer))\<rparr>))
       = Err (WantedMessageButGot Unchoke 0)"
  unfolding small_client_def choking_peer_def handshake_reply_def by code_simp




end
